theory Spec2Isabelle
  imports Main "HOL-Library.Option_ord" "HOL-Library.List_Lexorder"
begin

section \<open>Python strings\<close>

text \<open>
  A Python \<open>str\<close> is a sequence of Unicode code points: \<open>len\<close> and slicing count code
  points, and the literals of \<open>main.py\<close> hold code points above 255. A string is
  therefore a list of code points, and an ASCII literal of the source is written
  \<open>ascii ''...''\<close>.
\<close>

type_synonym str = "nat list"

definition ascii :: "string \<Rightarrow> str" where
  "ascii s = map of_char s"

text \<open>
  \<open>str.lower()\<close> and the \<open>repr\<close> of a list of strings are built into the interpreter
  and follow its Unicode tables (which letters are cased, which code points are
  printable). They are not part of \<open>main.py\<close>; the tools take them as they are, and so
  does the model: every definition that calls one of them takes the interpreter's
  built-ins as its first argument, and every theorem holds for any such pair of functions,
  CPython's among them.
\<close>

record python =
  str_lower :: "str \<Rightarrow> str"
  list_repr :: "str list \<Rightarrow> str"

text \<open>\<open>s.startswith(p)\<close> and the substring test \<open>kw in s\<close>.\<close>

fun startswith :: "str \<Rightarrow> str \<Rightarrow> bool" where
  "startswith s [] = True"
| "startswith [] (p # ps) = False"
| "startswith (c # s) (p # ps) = (c = p \<and> startswith s ps)"

fun str_in :: "str \<Rightarrow> str \<Rightarrow> bool" where
  "str_in kw [] = (kw = [])"
| "str_in kw (c # s) = (startswith (c # s) kw \<or> str_in kw s)"

text \<open>\<open>sep.join(xs)\<close>.\<close>

fun join :: "str \<Rightarrow> str list \<Rightarrow> str" where
  "join sep [] = []"
| "join sep [x] = x"
| "join sep (x # y # ys) = x @ sep @ join sep (y # ys)"

section \<open>The transport tools\<close>

text \<open>
  The tools return \<open>Dict[str, Any]\<close>: an association list in insertion order, with the
  two kinds of value the tools store. \<open>whatsapp.send_message\<close> and
  \<open>whatsapp.download_media\<close> live outside \<open>main.py\<close>; they are parameters, typed by
  their use: a pair \<open>(success, status_message)\<close> and an \<open>Optional[str]\<close>. Every call of
  a collaborator is logged in the trace of the world.
\<close>

datatype pyval = Bool bool | Str str

type_synonym pydict = "(str \<times> pyval) list"

datatype event =
    Load_chat_lists
  | Store_query
  | Transport_send str str
  | Transport_download str str

datatype py_error = JSONDecodeError | KeyError str

text \<open>
  What a call can see and change: the module constant \<open>CHAT_LISTS_PATH\<close>, the file
  \<open>chat_lists.json\<close>, the SQLite store (a read either raises \<open>sqlite3.Error\<close> with
  the given text or sees the tables), and the log of calls made so far. The file is
  missing, or \<open>json.load\<close> raises on it, or \<open>json.load\<close> returns a dictionary of the
  annotated type \<open>Dict[str, List[str]]\<close>: \<open>Json d\<close> holds the items of that dictionary
  in its order. The keys of a dictionary are distinct (of a key written twice in the
  file, \<open>json.load\<close> keeps one item).
\<close>

datatype config_file = Missing | Malformed | Json "(str \<times> str list) list"

record chat =
  c_jid :: str
  c_name :: "str option"
  c_last_message_time :: "str option"

record message =
  m_chat_jid :: str
  m_timestamp :: "str option"
  m_content :: "str option"

record database =
  chats :: "chat list"
  messages :: "message list"

datatype store = Unavailable str | Available database

record world =
  CHAT_LISTS_PATH :: str
  chat_lists_json :: config_file
  messages_db :: store
  trace :: "event list"

definition send_message ::
  "(str \<Rightarrow> str \<Rightarrow> bool \<times> str) \<Rightarrow> str \<Rightarrow> str \<Rightarrow> world \<Rightarrow> pydict \<times> world" where
  "send_message whatsapp_send_message recipient message w =
     (if recipient = [] then
        ([(ascii ''success'', Bool False),
          (ascii ''message'', Str (ascii ''Recipient must be provided''))], w)
      else
        (case whatsapp_send_message recipient message of
           (success, status_message) \<Rightarrow>
             ([(ascii ''success'', Bool success), (ascii ''message'', Str status_message)],
              w\<lparr>trace := trace w @ [Transport_send recipient message]\<rparr>)))"

definition download_media ::
  "(str \<Rightarrow> str \<Rightarrow> str option) \<Rightarrow> str \<Rightarrow> str \<Rightarrow> world \<Rightarrow> pydict \<times> world" where
  "download_media whatsapp_download_media message_id chat_jid w =
     (let file_path = whatsapp_download_media message_id chat_jid;
          w' = w\<lparr>trace := trace w @ [Transport_download message_id chat_jid]\<rparr>
      in case file_path of
           None \<Rightarrow>
             ([(ascii ''success'', Bool False),
               (ascii ''message'', Str (ascii ''Failed to download media''))], w')
         | Some p \<Rightarrow>
             if p \<noteq> [] then
               ([(ascii ''success'', Bool True),
                 (ascii ''message'', Str (ascii ''Media downloaded successfully'')),
                 (ascii ''file_path'', Str p)], w')
             else
               ([(ascii ''success'', Bool False),
                 (ascii ''message'', Str (ascii ''Failed to download media''))], w'))"

section \<open>Formatting\<close>

text \<open>\<open>str(n)\<close> for the length of a list, in decimal.\<close>

fun str_of_nat :: "nat \<Rightarrow> str" where
  "str_of_nat n =
     (if n < 10 then [48 + n] else str_of_nat (n div 10) @ [48 + n mod 10])"

declare str_of_nat.simps [simp del]

text \<open>
  An f-string field holding an \<open>Optional[str]\<close>: the text itself, or \<open>None\<close> spelled out.
\<close>

fun format_field :: "str option \<Rightarrow> str" where
  "format_field None = ascii ''None''"
| "format_field (Some s) = s"

section \<open>The store query\<close>

text \<open>
  A row of the cursor: \<open>(jid, name, last_message_time, last_message)\<close>. The tables are
  created by the bridge; the columns are those the query names. A \<open>NULL\<close> is \<open>None\<close>.
  Timestamps are the text SQLite holds, compared code point by code point, with
  \<open>NULL\<close> below every text (the order of \<open>str option\<close>). A table is a set of rows:
  the lists \<open>chats\<close> and \<open>messages\<close> of a database hold its rows in the order in which
  the engine visits them for this query, whichever plan it takes.
\<close>

type_synonym row = "str \<times> str option \<times> str option \<times> str option"

fun row_jid :: "row \<Rightarrow> str" where
  "row_jid (jid, name, last_time, last_msg) = jid"

fun row_name :: "row \<Rightarrow> str option" where
  "row_name (jid, name, last_time, last_msg) = name"

fun row_last_time :: "row \<Rightarrow> str option" where
  "row_last_time (jid, name, last_time, last_msg) = last_time"

fun row_last_msg :: "row \<Rightarrow> str option" where
  "row_last_msg (jid, name, last_time, last_msg) = last_msg"

text \<open>
  \<open>LEFT JOIN messages m ON c.jid = m.chat_jid AND c.last_message_time = m.timestamp\<close>:
  one row for each message of the chat stamped with the chat's last time, and one row
  with a \<open>NULL\<close> message when there is none. A \<open>NULL\<close> time equals nothing.
\<close>

definition join_on :: "chat \<Rightarrow> message \<Rightarrow> bool" where
  "join_on c m =
     (c_jid c = m_chat_jid m \<and> c_last_message_time c \<noteq> None
      \<and> c_last_message_time c = m_timestamp m)"

definition left_join :: "message list \<Rightarrow> chat \<Rightarrow> row list" where
  "left_join ms c =
     (case filter (join_on c) ms of
        [] \<Rightarrow> [(c_jid c, c_name c, c_last_message_time c, None)]
      | hits \<Rightarrow> map (\<lambda>m. (c_jid c, c_name c, c_last_message_time c, m_content m)) hits)"

text \<open>\<open>WHERE c.name != ''\<close>: a \<open>NULL\<close> name does not pass either.\<close>

definition where_named :: "row \<Rightarrow> bool" where
  "where_named r = (case row_name r of None \<Rightarrow> False | Some n \<Rightarrow> n \<noteq> [])"

text \<open>
  \<open>ORDER BY c.last_message_time DESC\<close>, by insertion. SQL leaves the order of rows
  with equal times open; SQLite's sorter keeps such rows in the order in which they
  reach it, the order of the join, and so does \<open>insert_desc\<close>. The theorems on the
  order of the result speak of the times only.
\<close>

fun insert_desc :: "row \<Rightarrow> row list \<Rightarrow> row list" where
  "insert_desc r [] = [r]"
| "insert_desc r (x # xs) =
     (if row_last_time x \<le> row_last_time r then r # x # xs else x # insert_desc r xs)"

definition order_by_last_time_desc :: "row list \<Rightarrow> row list" where
  "order_by_last_time_desc rs = foldr insert_desc rs []"

definition select_named_chats :: "database \<Rightarrow> row list" where
  "select_named_chats db =
     order_by_last_time_desc
       (filter where_named (concat (map (left_join (messages db)) (chats db))))"

text \<open>
  The \<open>try\<close> block: connect, execute, fetch all rows, close; any \<open>sqlite3.Error\<close> is
  caught by the caller. One read of the store, logged.
\<close>

definition fetch_all_chats :: "world \<Rightarrow> (str + row list) \<times> world" where
  "fetch_all_chats w =
     (let w' = w\<lparr>trace := trace w @ [Store_query]\<rparr>
      in case messages_db w of
           Unavailable e \<Rightarrow> (Inl e, w')
         | Available db \<Rightarrow> (Inr (select_named_chats db), w'))"

section \<open>The keyword lists\<close>

text \<open>\<open>_load_chat_lists\<close>: the empty dictionary when the file is missing.\<close>

definition load_chat_lists :: "world \<Rightarrow> (py_error + (str \<times> str list) list) \<times> world" where
  "load_chat_lists w =
     (let w' = w\<lparr>trace := trace w @ [Load_chat_lists]\<rparr>
      in case chat_lists_json w of
           Missing \<Rightarrow> (Inr [], w')
         | Malformed \<Rightarrow> (Inl JSONDecodeError, w')
         | Json lists' \<Rightarrow> (Inr lists', w'))"

definition no_lists_defined :: str where
  "no_lists_defined =
     ascii ''No lists defined. Edit chat_lists.json in the whatsapp-mcp-server folder to create your lists.''"

text \<open>
  \<open>any(kw.lower() in (name or '').lower() for kw in keywords)\<close>, and the list
  comprehension that keeps the rows passing it.
\<close>

definition name_or_empty :: "str option \<Rightarrow> str" where
  "name_or_empty name = (case name of None \<Rightarrow> [] | Some n \<Rightarrow> n)"

definition any_keyword :: "python \<Rightarrow> str list \<Rightarrow> str option \<Rightarrow> bool" where
  "any_keyword py keywords name =
     list_ex (\<lambda>kw. str_in (str_lower py kw) (str_lower py (name_or_empty name))) keywords"

definition matching :: "python \<Rightarrow> str list \<Rightarrow> row list \<Rightarrow> row list" where
  "matching py keywords all_chats =
     filter (\<lambda>r. any_keyword py keywords (row_name r)) all_chats"

text \<open>
  \<open>(last_msg[:60] + "...") if last_msg and len(last_msg) > 60 else (last_msg or "")\<close>
\<close>

definition preview :: "str option \<Rightarrow> str" where
  "preview last_msg =
     (case last_msg of
        None \<Rightarrow> []
      | Some s \<Rightarrow> if s \<noteq> [] \<and> length s > 60 then take 60 s @ ascii ''...'' else s)"

text \<open>
  The two literals of the listing that are not ASCII, code point by code point as the
  file has them.
\<close>

definition clipboard :: str where
  "clipboard = [240, 376, 8220, 8249]"

definition bullet :: str where
  "bullet = [226, 8364, 162]"

definition entry :: "row \<Rightarrow> str" where
  "entry r =
     bullet @ ascii '' '' @ format_field (row_name r) @ ascii ''  ['' @
     format_field (row_last_time r) @ ascii '']'' @ [10] @ ascii ''  '' @
     preview (row_last_msg r)"

definition listing :: "str \<Rightarrow> row list \<Rightarrow> str" where
  "listing matched_key matches =
     join [10]
       ((clipboard @ ascii '' '' @ matched_key @ ascii '' ('' @
         str_of_nat (length matches) @ ascii '' chats)'' @ [10])
        # map entry matches)"

definition not_found :: "str \<Rightarrow> (str \<times> str list) list \<Rightarrow> str" where
  "not_found list_name lists' =
     ascii ''List '' @ [39] @ list_name @ [39] @ ascii '' not found. Available lists: '' @
     join (ascii '', '') (map fst lists')"

definition no_chats_found :: "python \<Rightarrow> str \<Rightarrow> str list \<Rightarrow> str" where
  "no_chats_found py matched_key keywords =
     ascii ''No chats found for list '' @ [39] @ matched_key @ [39] @
     ascii '' with keywords: '' @ list_repr py keywords @ [10] @
     ascii ''Try editing chat_lists.json to adjust the keywords.''"

text \<open>
  \<open>next((k for k in lists if k.lower() == list_name.lower()), None)\<close>: the first key,
  in the order of the dictionary.
\<close>

definition match_key :: "python \<Rightarrow> (str \<times> str list) list \<Rightarrow> str \<Rightarrow> str option" where
  "match_key py lists' list_name =
     find (\<lambda>k. str_lower py k = str_lower py list_name) (map fst lists')"

definition get_list_chats :: "python \<Rightarrow> str \<Rightarrow> world \<Rightarrow> (py_error + str) \<times> world" where
  "get_list_chats py list_name w =
     (case load_chat_lists w of
        (Inl err, w1) \<Rightarrow> (Inl err, w1)
      | (Inr lists', w1) \<Rightarrow>
          if lists' = [] then (Inr no_lists_defined, w1)
          else
            (case match_key py lists' list_name of
               None \<Rightarrow> (Inr (not_found list_name lists'), w1)
             | Some matched_key \<Rightarrow>
                 if matched_key = [] then (Inr (not_found list_name lists'), w1)
                 else
                   (case map_of lists' matched_key of
                      None \<Rightarrow> (Inl (KeyError matched_key), w1)
                    | Some keywords \<Rightarrow>
                        (case fetch_all_chats w1 of
                           (Inl e, w2) \<Rightarrow> (Inr (ascii ''Database error: '' @ e), w2)
                         | (Inr all_chats, w2) \<Rightarrow>
                             (let matches = matching py keywords all_chats
                              in if matches = [] then
                                   (Inr (no_chats_found py matched_key keywords), w2)
                                 else (Inr (listing matched_key matches), w2))))))"

definition show_all_lists :: "world \<Rightarrow> (py_error + str) \<times> world" where
  "show_all_lists w =
     (case load_chat_lists w of
        (Inl err, w1) \<Rightarrow> (Inl err, w1)
      | (Inr lists', w1) \<Rightarrow>
          if lists' = [] then (Inr no_lists_defined, w1)
          else
            (Inr (join [10]
                    ([clipboard @ ascii '' Your Custom Chat Lists'' @ [10]]
                     @ map (\<lambda>(list_name, keywords).
                              bullet @ ascii '' '' @ list_name @ ascii '': '' @
                              join (ascii '', '') keywords) lists'
                     @ [[10] @ ascii ''Edit: '' @ CHAT_LISTS_PATH w])), w1))"

text \<open>
  Between two calls the user may edit \<open>chat_lists.json\<close>, as the docstrings invite.
\<close>

definition edit_chat_lists :: "config_file \<Rightarrow> world \<Rightarrow> world" where
  "edit_chat_lists f w = w\<lparr>chat_lists_json := f\<rparr>"

section \<open>Examples\<close>

text \<open>
  The built-ins on ASCII text, to run the examples: on a string of ASCII code points
  \<open>str.lower()\<close> maps the letters \<open>A\<close> to \<open>Z\<close> and nothing else, and \<open>repr\<close> takes double
  quotes when the text has a single quote and no double quote, escapes the quote and
  the backslash (92), names newline, carriage return and tab by a backslash and \<open>n\<close>,
  \<open>r\<close>, \<open>t\<close>, and writes the other code points below 32 and 127 as a backslash, \<open>x\<close>
  and two hexadecimal digits. All strings of the examples are ASCII.
\<close>

definition ascii_lower_cp :: "nat \<Rightarrow> nat" where
  "ascii_lower_cp c = (if 65 \<le> c \<and> c \<le> 90 then c + 32 else c)"

definition ascii_lower :: "str \<Rightarrow> str" where
  "ascii_lower s = map ascii_lower_cp s"

definition hex_digit :: "nat \<Rightarrow> nat" where
  "hex_digit d = (if d < 10 then 48 + d else 87 + d)"

definition ascii_repr_cp :: "nat \<Rightarrow> nat \<Rightarrow> str" where
  "ascii_repr_cp quote c =
     (if c = 92 \<or> c = quote then [92, c]
      else if c = 10 then [92, 110]
      else if c = 13 then [92, 114]
      else if c = 9 then [92, 116]
      else if c < 32 \<or> c = 127 then [92, 120, hex_digit (c div 16), hex_digit (c mod 16)]
      else [c])"

definition ascii_repr_str :: "str \<Rightarrow> str" where
  "ascii_repr_str s =
     (let quote = (if 39 \<in> set s \<and> 34 \<notin> set s then 34 else 39)
      in [quote] @ concat (map (ascii_repr_cp quote) s) @ [quote])"

definition ascii_list_repr :: "str list \<Rightarrow> str" where
  "ascii_list_repr xs =
     ascii ''['' @ join (ascii '', '') (map ascii_repr_str xs) @ ascii '']''"

definition ascii_python :: python where
  "ascii_python = \<lparr>str_lower = ascii_lower, list_repr = ascii_list_repr\<rparr>"

text \<open>
  A world with nothing configured and no store, and the world of the example of the
  specification: the list \<open>Trip\<close> with the keywords \<open>trip\<close> and \<open>vacation\<close>, and a store
  with three named chats and one chat without a name; and a list \<open>All\<close> whose only
  keyword is the empty string, which occurs in every name;
  the lists \<open>Trip\<close> and \<open>Work\<close>, the list \<open>Work\<close> alone, and a list whose label is the
  empty string.
\<close>

definition idle_world :: world where
  "idle_world =
     \<lparr>CHAT_LISTS_PATH = ascii ''/srv/whatsapp-mcp-server/chat_lists.json'',
      chat_lists_json = Missing,
      messages_db = Unavailable (ascii ''unable to open database file''),
      trace = []\<rparr>"

definition trip_lists :: "(str \<times> str list) list" where
  "trip_lists = [(ascii ''Trip'', [ascii ''trip'', ascii ''vacation''])]"

definition girls_trip :: chat where
  "girls_trip =
     \<lparr>c_jid = ascii ''1@g.us'', c_name = Some (ascii ''Girls Trip 2024''),
      c_last_message_time = Some (ascii ''2024-05-01 10:00:00'')\<rparr>"

definition unnamed_chat :: chat where
  "unnamed_chat =
     \<lparr>c_jid = ascii ''2@s.whatsapp.net'', c_name = Some [],
      c_last_message_time = Some (ascii ''2024-05-02 10:00:00'')\<rparr>"

definition vacation_chat :: chat where
  "vacation_chat =
     \<lparr>c_jid = ascii ''3@g.us'', c_name = Some (ascii ''VACATION''),
      c_last_message_time = Some (ascii ''2024-05-03 10:00:00'')\<rparr>"

definition office_chat :: chat where
  "office_chat =
     \<lparr>c_jid = ascii ''4@g.us'', c_name = Some (ascii ''Office''),
      c_last_message_time = Some (ascii ''2024-05-04 10:00:00'')\<rparr>"

definition trip_db :: database where
  "trip_db =
     \<lparr>chats = [girls_trip, unnamed_chat, vacation_chat, office_chat],
      messages =
        [\<lparr>m_chat_jid = ascii ''1@g.us'', m_timestamp = Some (ascii ''2024-05-01 10:00:00''),
          m_content = Some (ascii ''hello'')\<rparr>,
         \<lparr>m_chat_jid = ascii ''3@g.us'', m_timestamp = Some (ascii ''2024-05-03 10:00:00''),
          m_content =
            Some (ascii ''Booked the flights for all six of us, landing in Lisbon on Friday at 9:40'')\<rparr>]\<rparr>"

definition trip_world :: world where
  "trip_world =
     \<lparr>CHAT_LISTS_PATH = ascii ''/srv/whatsapp-mcp-server/chat_lists.json'',
      chat_lists_json = Json trip_lists,
      messages_db = Available trip_db,
      trace = []\<rparr>"

definition girls_trip_row :: row where
  "girls_trip_row =
     (ascii ''1@g.us'', Some (ascii ''Girls Trip 2024''), Some (ascii ''2024-05-01 10:00:00''),
      Some (ascii ''hello''))"

definition vacation_row :: row where
  "vacation_row =
     (ascii ''3@g.us'', Some (ascii ''VACATION''), Some (ascii ''2024-05-03 10:00:00''),
      Some (ascii ''Booked the flights for all six of us, landing in Lisbon on Friday at 9:40''))"

definition office_row :: row where
  "office_row =
     (ascii ''4@g.us'', Some (ascii ''Office''), Some (ascii ''2024-05-04 10:00:00''), None)"

definition everything_lists :: "(str \<times> str list) list" where
  "everything_lists = [(ascii ''All'', [[]])]"

definition trip_work_lists :: "(str \<times> str list) list" where
  "trip_work_lists =
     [(ascii ''Trip'', [ascii ''trip'', ascii ''vacation'']), (ascii ''Work'', [ascii ''office''])]"

definition work_lists :: "(str \<times> str list) list" where
  "work_lists = [(ascii ''Work'', [ascii ''office''])]"

definition empty_label_lists :: "(str \<times> str list) list" where
  "empty_label_lists = [([], [ascii ''trip''])]"

section \<open>Strings and sorting\<close>

lemma startswith_iff: "startswith s p \<longleftrightarrow> (\<exists>ss. s = p @ ss)"
  by (induction s p rule: startswith.induct) auto

lemma str_in_iff: "str_in kw s \<longleftrightarrow> (\<exists>ps ss. s = ps @ kw @ ss)"
proof (induction s)
  case Nil
  then show ?case by auto
next
  case (Cons c s)
  have "(\<exists>ps ss. c # s = ps @ kw @ ss) \<longleftrightarrow>
        (\<exists>ss. c # s = kw @ ss) \<or> (\<exists>ps ss. s = ps @ kw @ ss)"
  proof
    assume "\<exists>ps ss. c # s = ps @ kw @ ss"
    then obtain ps ss where eq: "c # s = ps @ kw @ ss" by blast
    show "(\<exists>ss. c # s = kw @ ss) \<or> (\<exists>ps ss. s = ps @ kw @ ss)"
    proof (cases ps)
      case Nil
      with eq show ?thesis by auto
    next
      case (Cons p ps')
      with eq have "s = ps' @ kw @ ss" by simp
      then show ?thesis by blast
    qed
  next
    assume "(\<exists>ss. c # s = kw @ ss) \<or> (\<exists>ps ss. s = ps @ kw @ ss)"
    then show "\<exists>ps ss. c # s = ps @ kw @ ss"
    proof
      assume "\<exists>ss. c # s = kw @ ss"
      then obtain ss where "c # s = [] @ kw @ ss" by auto
      then show ?thesis by blast
    next
      assume "\<exists>ps ss. s = ps @ kw @ ss"
      then obtain ps ss where "c # s = (c # ps) @ kw @ ss" by auto
      then show ?thesis by blast
    qed
  qed
  with Cons show ?case by (simp add: startswith_iff)
qed

lemma set_insert_desc: "set (insert_desc r xs) = insert r (set xs)"
  by (induction xs) auto

lemma sorted_insert_desc:
  "sorted_wrt (\<lambda>a b. row_last_time b \<le> row_last_time a) xs \<Longrightarrow>
   sorted_wrt (\<lambda>a b. row_last_time b \<le> row_last_time a) (insert_desc r xs)"
  by (induction xs) (auto simp: set_insert_desc)

lemma set_order_by: "set (order_by_last_time_desc rs) = set rs"
  unfolding order_by_last_time_desc_def by (induction rs) (auto simp: set_insert_desc)

lemma sorted_order_by:
  "sorted_wrt (\<lambda>a b. row_last_time b \<le> row_last_time a) (order_by_last_time_desc rs)"
  unfolding order_by_last_time_desc_def by (induction rs) (auto simp: sorted_insert_desc)

lemma left_join_nonempty: "left_join ms c \<noteq> []"
  by (simp add: left_join_def split: list.splits)

lemma left_join_columns:
  "r \<in> set (left_join ms c) \<Longrightarrow>
   row_jid r = c_jid c \<and> row_name r = c_name c \<and> row_last_time r = c_last_message_time c"
  by (auto simp: left_join_def split: list.splits)

lemma left_join_message:
  assumes "r \<in> set (left_join ms c)"
  shows "(\<exists>m \<in> set ms. join_on c m \<and> row_last_msg r = m_content m)
    \<or> (\<not> (\<exists>m \<in> set ms. join_on c m) \<and> row_last_msg r = None)"
proof (cases "filter (join_on c) ms")
  case Nil
  then have "\<not> (\<exists>m \<in> set ms. join_on c m)"
    by (simp add: filter_empty_conv)
  moreover from Nil assms have "row_last_msg r = None"
    by (simp add: left_join_def)
  ultimately show ?thesis by blast
next
  case (Cons h hits)
  then have "left_join ms c =
      map (\<lambda>m. (c_jid c, c_name c, c_last_message_time c, m_content m)) (filter (join_on c) ms)"
    by (simp add: left_join_def)
  with assms obtain m where "m \<in> set ms" and "join_on c m" and "row_last_msg r = m_content m"
    by auto
  then show ?thesis by blast
qed

lemma left_join_some_row:
  "\<exists>r \<in> set (left_join ms c).
     row_jid r = c_jid c \<and> row_name r = c_name c \<and> row_last_time r = c_last_message_time c"
  using left_join_nonempty [of ms c] left_join_columns [of _ ms c]
  by (cases "left_join ms c") auto

lemma select_named_chats_row:
  "r \<in> set (select_named_chats db) \<longleftrightarrow>
   (\<exists>c \<in> set (chats db). r \<in> set (left_join (messages db) c)) \<and> where_named r"
  by (auto simp: select_named_chats_def set_order_by)

lemma match_key_Some:
  "match_key py lists' list_name = Some k \<Longrightarrow>
   k \<in> fst ` set lists' \<and> str_lower py k = str_lower py list_name"
  unfolding match_key_def by (auto simp: find_Some_iff)

lemma match_key_None:
  "match_key py lists' list_name = None \<longleftrightarrow> (\<forall>k \<in> fst ` set lists'. str_lower py k \<noteq> str_lower py list_name)"
  unfolding match_key_def by (auto simp: find_None_iff)

lemma match_key_lookup:
  "match_key py lists' list_name = Some k \<Longrightarrow> \<exists>keywords. map_of lists' k = Some keywords"
  using match_key_Some [of py lists' list_name k] by (metis domD dom_map_of_conv_image_fst)

lemma get_list_chats_resolved:
  assumes "chat_lists_json w = Json lists'"
    and "match_key py lists' list_name = Some key" and "key \<noteq> []"
    and "map_of lists' key = Some keywords"
    and "messages_db w = Available db"
  shows "get_list_chats py list_name w =
     (Inr (if matching py keywords (select_named_chats db) = []
           then no_chats_found py key keywords
           else listing key (matching py keywords (select_named_chats db))),
      w\<lparr>trace := trace w @ [Load_chat_lists, Store_query]\<rparr>)"
proof -
  from assms(2) have "lists' \<noteq> []" by (auto simp: match_key_def)
  with assms show ?thesis
    by (simp add: get_list_chats_def load_chat_lists_def fetch_all_chats_def Let_def)
qed

lemma any_keyword_iff:
  "any_keyword py keywords (Some n) \<longleftrightarrow>
   (\<exists>kw \<in> set keywords. \<exists>ps ss. str_lower py n = ps @ str_lower py kw @ ss)"
  by (simp add: any_keyword_def name_or_empty_def list_ex_iff str_in_iff)

lemma matching_row:
  "r \<in> set (matching py keywords (select_named_chats db)) \<longleftrightarrow>
   (\<exists>c \<in> set (chats db). r \<in> set (left_join (messages db) c))
   \<and> where_named r \<and> any_keyword py keywords (row_name r)"
  by (auto simp: matching_def select_named_chats_row)

lemma where_named_iff: "where_named r \<longleftrightarrow> (\<exists>n. row_name r = Some n \<and> n \<noteq> [])"
  by (auto simp: where_named_def split: option.splits)

lemma sorted_matching:
  "sorted_wrt (\<lambda>a b. row_last_time b \<le> row_last_time a)
     (matching py keywords (select_named_chats db))"
  unfolding matching_def select_named_chats_def
  by (intro sorted_wrt_filter sorted_order_by)

lemma join_contains: "k \<in> set xs \<Longrightarrow> \<exists>ps ss. join sep xs = ps @ k @ ss"
proof (induction sep xs rule: join.induct)
  case (1 sep)
  then show ?case by simp
next
  case (2 sep x)
  then have "join sep [x] = [] @ k @ []" by simp
  then show ?case by blast
next
  case (3 sep x y ys)
  show ?case
  proof (cases "k = x")
    case True
    then have "join sep (x # y # ys) = [] @ k @ (sep @ join sep (y # ys))" by simp
    then show ?thesis by blast
  next
    case False
    with 3 obtain ps ss where "join sep (y # ys) = ps @ k @ ss" by auto
    then have "join sep (x # y # ys) = (x @ sep @ ps) @ k @ ss" by simp
    then show ?thesis by blast
  qed
qed

lemma trip_resolves:
  "chat_lists_json trip_world = Json trip_lists"
  "match_key ascii_python trip_lists (ascii ''trip'') = Some (ascii ''Trip'')"
  "ascii ''Trip'' \<noteq> []"
  "map_of trip_lists (ascii ''Trip'') = Some [ascii ''trip'', ascii ''vacation'']"
  "messages_db trip_world = Available trip_db"
  "[vacation_row, girls_trip_row] =
     matching ascii_python [ascii ''trip'', ascii ''vacation''] (select_named_chats trip_db)"
  "[vacation_row, girls_trip_row] \<noteq> []"
        apply (simp add: trip_world_def)
       apply code_simp
      apply (simp add: ascii_def)
     apply (simp add: trip_lists_def)
    apply (simp add: trip_world_def)
   apply code_simp
  apply simp
  done

section \<open>What a call reads and leaves behind\<close>

lemma match_key_lower:
  "str_lower py a = str_lower py b \<Longrightarrow> match_key py lists' a = match_key py lists' b"
  by (simp add: match_key_def)

lemma get_list_chats_world:
  "chat_lists_json (snd (get_list_chats py n w)) = chat_lists_json w
   \<and> messages_db (snd (get_list_chats py n w)) = messages_db w
   \<and> CHAT_LISTS_PATH (snd (get_list_chats py n w)) = CHAT_LISTS_PATH w"
  by (simp add: get_list_chats_def load_chat_lists_def fetch_all_chats_def Let_def
      split: config_file.splits option.splits store.splits)

lemma show_all_lists_world:
  "chat_lists_json (snd (show_all_lists w)) = chat_lists_json w
   \<and> messages_db (snd (show_all_lists w)) = messages_db w
   \<and> CHAT_LISTS_PATH (snd (show_all_lists w)) = CHAT_LISTS_PATH w"
  by (simp add: show_all_lists_def load_chat_lists_def Let_def split: config_file.splits)

lemma get_list_chats_reads:
  assumes "chat_lists_json w = chat_lists_json w'" and "messages_db w = messages_db w'"
  shows "fst (get_list_chats py n w) = fst (get_list_chats py n w')"
  using assms
  by (simp add: get_list_chats_def load_chat_lists_def fetch_all_chats_def Let_def
      split: config_file.splits option.splits store.splits)

lemma show_all_lists_reads:
  assumes "chat_lists_json w = chat_lists_json w'" and "CHAT_LISTS_PATH w = CHAT_LISTS_PATH w'"
  shows "fst (show_all_lists w) = fst (show_all_lists w')"
  using assms
  by (simp add: show_all_lists_def load_chat_lists_def Let_def split: config_file.splits)

lemma get_list_chats_loads_once:
  "count_list (trace (snd (get_list_chats py n w))) Load_chat_lists =
   Suc (count_list (trace w) Load_chat_lists)"
  by (simp add: get_list_chats_def load_chat_lists_def fetch_all_chats_def Let_def
      split: config_file.splits option.splits store.splits)

lemma show_all_lists_loads_once:
  "count_list (trace (snd (show_all_lists w))) Load_chat_lists =
   Suc (count_list (trace w) Load_chat_lists)"
  by (simp add: show_all_lists_def load_chat_lists_def Let_def split: config_file.splits)

lemma work_unknown:
  "fst (get_list_chats ascii_python (ascii ''trip'') (edit_chat_lists (Json work_lists) w)) =
     Inr (not_found (ascii ''trip'') work_lists)"
  by (simp add: get_list_chats_def load_chat_lists_def edit_chat_lists_def Let_def
      work_lists_def match_key_def ascii_python_def ascii_lower_def ascii_lower_cp_def ascii_def)

lemma join_contains_all:
  "\<forall>k \<in> set xs. \<exists>ps ss. join sep xs = ps @ k @ ss"
  using join_contains by blast

section \<open>Sending and downloading\<close>

text \<open>
  C9. With an empty recipient \<open>send_message\<close> returns
  \<open>{success: False, message: "Recipient must be provided"}\<close> and leaves the world as
  it was, so the transport is not called. With any other recipient the transport is
  called once, with the recipient and the message, and the two fields of the result are
  the pair it returned.
\<close>

theorem send_message_validates_recipient:
  "send_message whatsapp_send_message [] message w =
     ([(ascii ''success'', Bool False),
       (ascii ''message'', Str (ascii ''Recipient must be provided''))], w)
   \<and> (recipient \<noteq> [] \<longrightarrow>
        send_message whatsapp_send_message recipient message w =
          ([(ascii ''success'', Bool (fst (whatsapp_send_message recipient message))),
            (ascii ''message'', Str (snd (whatsapp_send_message recipient message)))],
           w\<lparr>trace := trace w @ [Transport_send recipient message]\<rparr>))"
  by (simp add: send_message_def split: prod.splits)

theorem send_message_validates_recipient_witness:
  "ascii ''491701234567'' \<noteq> []
   \<and> send_message (\<lambda>r m. (True, ascii ''Message sent to '' @ r))
        (ascii ''491701234567'') (ascii ''hi'') idle_world =
       ([(ascii ''success'', Bool True),
         (ascii ''message'', Str (ascii ''Message sent to 491701234567''))],
        idle_world\<lparr>trace := [Transport_send (ascii ''491701234567'') (ascii ''hi'')]\<rparr>)
   \<and> send_message (\<lambda>r m. (True, ascii ''Message sent to '' @ r)) [] (ascii ''hi'') idle_world =
       ([(ascii ''success'', Bool False),
         (ascii ''message'', Str (ascii ''Recipient must be provided''))], idle_world)"
  using send_message_validates_recipient
    [of "\<lambda>r m. (True, ascii ''Message sent to '' @ r)" "ascii ''hi''" idle_world
        "ascii ''491701234567''"]
  by (simp add: ascii_def idle_world_def)

text \<open>
  C10, as the code has it. \<open>download_media\<close> tests the path for truth, so the empty
  path counts as a failure like \<open>None\<close>: the result is the success dictionary, with
  \<open>file_path\<close> the path of the download, exactly when the download yields a path that
  is neither \<open>None\<close> nor empty; otherwise it is the failure dictionary, which has no
  \<open>file_path\<close> key. The download is called once either way.
\<close>

theorem download_media_truthy_path:
  "(\<forall>p. whatsapp_download_media message_id chat_jid = Some p \<and> p \<noteq> [] \<longrightarrow>
        download_media whatsapp_download_media message_id chat_jid w =
          ([(ascii ''success'', Bool True),
            (ascii ''message'', Str (ascii ''Media downloaded successfully'')),
            (ascii ''file_path'', Str p)],
           w\<lparr>trace := trace w @ [Transport_download message_id chat_jid]\<rparr>))
   \<and> (whatsapp_download_media message_id chat_jid = None
        \<or> whatsapp_download_media message_id chat_jid = Some [] \<longrightarrow>
        download_media whatsapp_download_media message_id chat_jid w =
          ([(ascii ''success'', Bool False),
            (ascii ''message'', Str (ascii ''Failed to download media''))],
           w\<lparr>trace := trace w @ [Transport_download message_id chat_jid]\<rparr>)
        \<and> map_of (fst (download_media whatsapp_download_media message_id chat_jid w))
             (ascii ''file_path'') = None)"
  by (auto simp: download_media_def Let_def ascii_def)

theorem download_media_truthy_path_witness:
  "download_media (\<lambda>m c. if m = ascii ''3EB0'' then Some (ascii ''/store/1@g.us/a.jpg'') else None)
     (ascii ''3EB0'') (ascii ''1@g.us'') idle_world =
     ([(ascii ''success'', Bool True),
       (ascii ''message'', Str (ascii ''Media downloaded successfully'')),
       (ascii ''file_path'', Str (ascii ''/store/1@g.us/a.jpg''))],
      idle_world\<lparr>trace := [Transport_download (ascii ''3EB0'') (ascii ''1@g.us'')]\<rparr>)
   \<and> map_of (fst (download_media
        (\<lambda>m c. if m = ascii ''3EB0'' then Some (ascii ''/store/1@g.us/a.jpg'') else None)
        (ascii ''FFFF'') (ascii ''1@g.us'') idle_world)) (ascii ''file_path'') = None"
  using download_media_truthy_path
    [of "\<lambda>m c. if m = ascii ''3EB0'' then Some (ascii ''/store/1@g.us/a.jpg'') else None"
        "ascii ''3EB0''" "ascii ''1@g.us''" idle_world]
    download_media_truthy_path
    [of "\<lambda>m c. if m = ascii ''3EB0'' then Some (ascii ''/store/1@g.us/a.jpg'') else None"
        "ascii ''FFFF''" "ascii ''1@g.us''" idle_world]
  by (simp add: ascii_def idle_world_def)

text \<open>
  C10, as stated, at a download that yields a path that is not \<open>None\<close>, the empty
  string: the result is the failure dictionary.
\<close>

theorem download_media_empty_path_counterexample:
  "(\<lambda>m c. Some []) (ascii ''3EB0'') (ascii ''1@g.us'') \<noteq> (None :: str option)
   \<and> fst (download_media (\<lambda>m c. Some []) (ascii ''3EB0'') (ascii ''1@g.us'') idle_world) =
       [(ascii ''success'', Bool False),
        (ascii ''message'', Str (ascii ''Failed to download media''))]"
  by (simp add: download_media_def Let_def)

section \<open>Chats of a list\<close>

text \<open>
  C1. When the list name resolves to a label with keywords and the store can be read,
  the result is rendered from the rows \<open>ms\<close>, and \<open>ms\<close> holds a row of a named chat
  exactly when some keyword of the list, lowercased, occurs somewhere in the chat's
  lowercased name, with lowercase as \<open>str.lower()\<close> of the interpreter gives it: each
  named chat of the store has a row in \<open>ms\<close> if and only if a keyword occurs in its
  name, and each row of \<open>ms\<close> is the row of a named chat in whose name a keyword
  occurs. The keywords of other lists play no part, so a chat may be in none, one or
  several lists.
\<close>

theorem get_list_chats_keyword_membership:
  assumes "chat_lists_json w = Json lists'"
    and "match_key py lists' list_name = Some key" and "key \<noteq> []"
    and "map_of lists' key = Some keywords"
    and "messages_db w = Available db"
    and "ms = matching py keywords (select_named_chats db)"
  shows "fst (get_list_chats py list_name w) =
           Inr (if ms = [] then no_chats_found py key keywords else listing key ms)
    \<and> (\<forall>c \<in> set (chats db). \<forall>n. c_name c = Some n \<and> n \<noteq> [] \<longrightarrow>
          ((\<exists>r \<in> set ms. row_jid r = c_jid c \<and> row_name r = Some n
                \<and> row_last_time r = c_last_message_time c)
           \<longleftrightarrow> (\<exists>kw \<in> set keywords. \<exists>ps ss. str_lower py n = ps @ str_lower py kw @ ss)))
    \<and> (\<forall>r \<in> set ms. \<exists>c \<in> set (chats db). \<exists>n. c_name c = Some n \<and> n \<noteq> []
          \<and> row_jid r = c_jid c \<and> row_name r = Some n
          \<and> row_last_time r = c_last_message_time c
          \<and> (\<exists>kw \<in> set keywords. \<exists>ps ss. str_lower py n = ps @ str_lower py kw @ ss))"
proof (intro conjI ballI allI impI)
  show "fst (get_list_chats py list_name w) =
          Inr (if ms = [] then no_chats_found py key keywords else listing key ms)"
    using get_list_chats_resolved [OF assms(1-5)] assms(6) by simp
next
  fix c n
  assume c: "c \<in> set (chats db)" and n: "c_name c = Some n \<and> n \<noteq> []"
  show "(\<exists>r \<in> set ms. row_jid r = c_jid c \<and> row_name r = Some n
            \<and> row_last_time r = c_last_message_time c)
        \<longleftrightarrow> (\<exists>kw \<in> set keywords. \<exists>ps ss. str_lower py n = ps @ str_lower py kw @ ss)"
  proof
    assume "\<exists>r \<in> set ms. row_jid r = c_jid c \<and> row_name r = Some n
              \<and> row_last_time r = c_last_message_time c"
    then obtain r where "r \<in> set ms" and "row_name r = Some n" by blast
    then have "any_keyword py keywords (Some n)"
      using assms(6) by (auto simp: matching_row)
    then show "\<exists>kw \<in> set keywords. \<exists>ps ss. str_lower py n = ps @ str_lower py kw @ ss"
      by (simp add: any_keyword_iff)
  next
    assume kw: "\<exists>kw \<in> set keywords. \<exists>ps ss. str_lower py n = ps @ str_lower py kw @ ss"
    obtain r where r: "r \<in> set (left_join (messages db) c)"
      and cols: "row_jid r = c_jid c" "row_name r = c_name c"
        "row_last_time r = c_last_message_time c"
      using left_join_some_row [of "messages db" c] by blast
    from cols n have "where_named r" by (simp add: where_named_iff)
    moreover from kw cols n have "any_keyword py keywords (row_name r)"
      by (simp add: any_keyword_iff)
    ultimately have "r \<in> set ms"
      using c r assms(6) by (auto simp: matching_row)
    with cols n show "\<exists>r \<in> set ms. row_jid r = c_jid c \<and> row_name r = Some n
              \<and> row_last_time r = c_last_message_time c"
      by auto
  qed
next
  fix r
  assume "r \<in> set ms"
  then obtain c where c: "c \<in> set (chats db)" and r: "r \<in> set (left_join (messages db) c)"
    and named: "where_named r" and kw: "any_keyword py keywords (row_name r)"
    using assms(6) by (auto simp: matching_row)
  from named obtain n where n: "row_name r = Some n" "n \<noteq> []"
    by (auto simp: where_named_iff)
  from kw n have sub: "\<exists>kw \<in> set keywords. \<exists>ps ss. str_lower py n = ps @ str_lower py kw @ ss"
    by (simp add: any_keyword_iff)
  from left_join_columns [OF r] n
  have "c_name c = Some n \<and> n \<noteq> [] \<and> row_jid r = c_jid c \<and> row_name r = Some n
          \<and> row_last_time r = c_last_message_time c"
    by simp
  with sub c
  show "\<exists>c \<in> set (chats db). \<exists>n. c_name c = Some n \<and> n \<noteq> []
          \<and> row_jid r = c_jid c \<and> row_name r = Some n
          \<and> row_last_time r = c_last_message_time c
          \<and> (\<exists>kw \<in> set keywords. \<exists>ps ss. str_lower py n = ps @ str_lower py kw @ ss)"
    by blast
qed

theorem get_list_chats_keyword_membership_witness:
  "fst (get_list_chats ascii_python (ascii ''trip'') trip_world) =
     Inr (listing (ascii ''Trip'') [vacation_row, girls_trip_row])
   \<and> (\<exists>kw \<in> set [ascii ''trip'', ascii ''vacation''].
         \<exists>ps ss. str_lower ascii_python (ascii ''Girls Trip 2024'') = ps @ str_lower ascii_python kw @ ss)
   \<and> \<not> (\<exists>kw \<in> set [ascii ''trip'', ascii ''vacation''].
         \<exists>ps ss. str_lower ascii_python (ascii ''Office'') = ps @ str_lower ascii_python kw @ ss)"
proof -
  have h1: "chat_lists_json trip_world = Json trip_lists"
    by (simp add: trip_world_def)
  have h2: "match_key ascii_python trip_lists (ascii ''trip'') = Some (ascii ''Trip'')"
    by code_simp
  have h3: "ascii ''Trip'' \<noteq> []"
    by (simp add: ascii_def)
  have h4: "map_of trip_lists (ascii ''Trip'') = Some [ascii ''trip'', ascii ''vacation'']"
    by (simp add: trip_lists_def)
  have h5: "messages_db trip_world = Available trip_db"
    by (simp add: trip_world_def)
  have h6: "[vacation_row, girls_trip_row] =
      matching ascii_python [ascii ''trip'', ascii ''vacation''] (select_named_chats trip_db)"
    by code_simp
  note T = get_list_chats_keyword_membership [OF h1 h2 h3 h4 h5 h6]
  from T [THEN conjunct1]
  have out: "fst (get_list_chats ascii_python (ascii ''trip'') trip_world) =
      Inr (listing (ascii ''Trip'') [vacation_row, girls_trip_row])"
    by simp
  note iff = T [THEN conjunct2, THEN conjunct1]
  have g: "girls_trip \<in> set (chats trip_db)" and o: "office_chat \<in> set (chats trip_db)"
    by (simp_all add: trip_db_def)
  have gn: "c_name girls_trip = Some (ascii ''Girls Trip 2024'') \<and> ascii ''Girls Trip 2024'' \<noteq> []"
    by (simp add: girls_trip_def ascii_def)
  have gr: "\<exists>r \<in> set [vacation_row, girls_trip_row].
      row_jid r = c_jid girls_trip \<and> row_name r = Some (ascii ''Girls Trip 2024'')
      \<and> row_last_time r = c_last_message_time girls_trip"
    by (simp add: girls_trip_row_def girls_trip_def)
  from iff g gn gr
  have yes: "\<exists>kw \<in> set [ascii ''trip'', ascii ''vacation''].
      \<exists>ps ss. str_lower ascii_python (ascii ''Girls Trip 2024'') = ps @ str_lower ascii_python kw @ ss"
    by blast
  have on: "c_name office_chat = Some (ascii ''Office'') \<and> ascii ''Office'' \<noteq> []"
    by (simp add: office_chat_def ascii_def)
  have no_row: "\<not> (\<exists>r \<in> set [vacation_row, girls_trip_row].
      row_jid r = c_jid office_chat \<and> row_name r = Some (ascii ''Office'')
      \<and> row_last_time r = c_last_message_time office_chat)"
    by (simp add: girls_trip_row_def vacation_row_def office_chat_def ascii_def)
  from iff o on no_row
  have no: "\<not> (\<exists>kw \<in> set [ascii ''trip'', ascii ''vacation''].
      \<exists>ps ss. str_lower ascii_python (ascii ''Office'') = ps @ str_lower ascii_python kw @ ss)"
    by blast
  from out yes no show ?thesis by blast
qed

text \<open>
  C3. Under the same conditions every row of the result has a name that is neither
  \<open>NULL\<close> nor empty, whatever the keywords are (the empty keyword occurs in every
  name, the empty one too), and no row carries the name of a chat of the store that has
  none: the query itself leaves those chats out.
\<close>

theorem get_list_chats_excludes_unnamed:
  assumes "chat_lists_json w = Json lists'"
    and "match_key py lists' list_name = Some key" and "key \<noteq> []"
    and "map_of lists' key = Some keywords"
    and "messages_db w = Available db"
    and "ms = matching py keywords (select_named_chats db)"
  shows "fst (get_list_chats py list_name w) =
           Inr (if ms = [] then no_chats_found py key keywords else listing key ms)
    \<and> (\<forall>r \<in> set ms. \<exists>n. row_name r = Some n \<and> n \<noteq> [])
    \<and> (\<forall>c \<in> set (chats db). c_name c = None \<or> c_name c = Some [] \<longrightarrow>
          \<not> (\<exists>r \<in> set ms. row_name r = c_name c))"
proof -
  have named: "\<forall>r \<in> set ms. \<exists>n. row_name r = Some n \<and> n \<noteq> []"
    using assms(6) by (simp add: matching_row where_named_iff)
  then have "\<forall>c \<in> set (chats db). c_name c = None \<or> c_name c = Some [] \<longrightarrow>
          \<not> (\<exists>r \<in> set ms. row_name r = c_name c)"
    by fastforce
  with named get_list_chats_resolved [OF assms(1-5)] assms(6) show ?thesis
    by simp
qed

theorem get_list_chats_excludes_unnamed_witness:
  "fst (get_list_chats ascii_python (ascii ''all'') (trip_world\<lparr>chat_lists_json := Json everything_lists\<rparr>)) =
     Inr (listing (ascii ''All'') [office_row, vacation_row, girls_trip_row])
   \<and> unnamed_chat \<in> set (chats trip_db) \<and> c_name unnamed_chat = Some []
   \<and> \<not> (\<exists>r \<in> set [office_row, vacation_row, girls_trip_row]. row_name r = c_name unnamed_chat)"
proof -
  have h1: "chat_lists_json (trip_world\<lparr>chat_lists_json := Json everything_lists\<rparr>) =
      Json everything_lists"
    by simp
  have h2: "match_key ascii_python everything_lists (ascii ''all'') = Some (ascii ''All'')"
    by code_simp
  have h3: "ascii ''All'' \<noteq> []"
    by (simp add: ascii_def)
  have h4: "map_of everything_lists (ascii ''All'') = Some [[]]"
    by (simp add: everything_lists_def)
  have h5: "messages_db (trip_world\<lparr>chat_lists_json := Json everything_lists\<rparr>) =
      Available trip_db"
    by (simp add: trip_world_def)
  have h6: "[office_row, vacation_row, girls_trip_row] =
      matching ascii_python [[]] (select_named_chats trip_db)"
    by code_simp
  note T = get_list_chats_excludes_unnamed [OF h1 h2 h3 h4 h5 h6]
  from T [THEN conjunct1]
  have out: "fst (get_list_chats ascii_python (ascii ''all'')
        (trip_world\<lparr>chat_lists_json := Json everything_lists\<rparr>)) =
      Inr (listing (ascii ''All'') [office_row, vacation_row, girls_trip_row])"
    by simp
  have u: "unnamed_chat \<in> set (chats trip_db)"
    by (simp add: trip_db_def)
  have un: "c_name unnamed_chat = Some []"
    by (simp add: unnamed_chat_def)
  from T [THEN conjunct2, THEN conjunct2] u un
  have "\<not> (\<exists>r \<in> set [office_row, vacation_row, girls_trip_row].
      row_name r = c_name unnamed_chat)"
    by blast
  with out u un show ?thesis by blast
qed

text \<open>
  C5. When the list has at least one matching row, the result is the header followed
  by one entry for each row of \<open>ms\<close>, in the order of \<open>ms\<close>, and along \<open>ms\<close> the
  last-activity time never increases: the latest chat comes first, and a chat without a
  time (\<open>NULL\<close>) after all that have one.
\<close>

theorem get_list_chats_latest_first:
  assumes "chat_lists_json w = Json lists'"
    and "match_key py lists' list_name = Some key" and "key \<noteq> []"
    and "map_of lists' key = Some keywords"
    and "messages_db w = Available db"
    and "ms = matching py keywords (select_named_chats db)"
    and "ms \<noteq> []"
  shows "fst (get_list_chats py list_name w) =
           Inr (join [10]
                  ((clipboard @ ascii '' '' @ key @ ascii '' ('' @ str_of_nat (length ms) @
                    ascii '' chats)'' @ [10])
                   # map entry ms))
    \<and> sorted_wrt (\<lambda>a b. row_last_time b \<le> row_last_time a) ms"
  using get_list_chats_resolved [OF assms(1-5)] assms(6,7) sorted_matching [of py "keywords" db]
  by (simp add: listing_def)

theorem get_list_chats_latest_first_witness:
  "fst (get_list_chats ascii_python (ascii ''trip'') trip_world) =
     Inr (join [10]
            [clipboard @ ascii '' Trip (2 chats)'' @ [10],
             entry vacation_row, entry girls_trip_row])
   \<and> row_last_time vacation_row = Some (ascii ''2024-05-03 10:00:00'')
   \<and> row_last_time girls_trip_row = Some (ascii ''2024-05-01 10:00:00'')
   \<and> sorted_wrt (\<lambda>a b. row_last_time b \<le> row_last_time a) [vacation_row, girls_trip_row]"
  using get_list_chats_latest_first [OF trip_resolves]
  by (simp add: ascii_def str_of_nat.simps vacation_row_def girls_trip_row_def)

text \<open>
  C6, as the code has it. After the header the result has one entry for each matching
  row, in the order of the rows. An entry is built from three fields of the row and
  nothing else: the bullet, a space, the display name of the chat (never empty), two
  spaces, the last-activity time in square brackets (the word \<open>None\<close> for a \<open>NULL\<close>),
  a line break, two spaces and the preview. The chat identifier is not a field: the
  entry is the same whatever the identifier of the row is. Name, time and preview are
  copied as they are. The previewed text is the content of a message of that chat whose
  timestamp is the last-activity time of the chat, and the preview is empty when the
  chat has no such message or the content is \<open>NULL\<close>. A content of more than 60
  characters is cut to its first 60 characters followed by three dots; a content of at
  most 60 characters is its own preview.
\<close>

theorem get_list_chats_entries:
  assumes "chat_lists_json w = Json lists'"
    and "match_key py lists' list_name = Some key" and "key \<noteq> []"
    and "map_of lists' key = Some keywords"
    and "messages_db w = Available db"
    and "ms = matching py keywords (select_named_chats db)"
    and "ms \<noteq> []"
  shows "fst (get_list_chats py list_name w) =
           Inr (join [10]
                  ((clipboard @ ascii '' '' @ key @ ascii '' ('' @ str_of_nat (length ms) @
                    ascii '' chats)'' @ [10])
                   # map entry ms))
    \<and> (\<forall>r \<in> set ms. \<exists>n. row_name r = Some n \<and> n \<noteq> [] \<and>
          entry r = bullet @ ascii '' '' @ n @ ascii ''  ['' @ format_field (row_last_time r) @
                    ascii '']'' @ [10] @ ascii ''  '' @ preview (row_last_msg r))
    \<and> (\<forall>r \<in> set ms. \<forall>s. row_last_msg r = Some s \<longrightarrow>
          preview (row_last_msg r) = (if 60 < length s then take 60 s @ ascii ''...'' else s))
    \<and> (\<forall>r \<in> set ms. row_last_msg r = None \<longrightarrow> preview (row_last_msg r) = [])
    \<and> (\<forall>r \<in> set ms. \<forall>jid.
          entry (jid, row_name r, row_last_time r, row_last_msg r) = entry r)
    \<and> (\<forall>r \<in> set ms. \<exists>c \<in> set (chats db).
          row_jid r = c_jid c \<and> row_name r = c_name c
          \<and> row_last_time r = c_last_message_time c
          \<and> ((\<exists>m \<in> set (messages db).
                 m_chat_jid m = c_jid c \<and> c_last_message_time c \<noteq> None
                 \<and> m_timestamp m = c_last_message_time c
                 \<and> row_last_msg r = m_content m)
              \<or> (\<not> (\<exists>m \<in> set (messages db).
                      m_chat_jid m = c_jid c \<and> c_last_message_time c \<noteq> None
                      \<and> m_timestamp m = c_last_message_time c)
                  \<and> row_last_msg r = None)))
    \<and> (\<forall>r \<in> set ms. \<forall>t. row_last_time r = Some t \<longrightarrow>
          format_field (row_last_time r) = t)
    \<and> (\<forall>r \<in> set ms. row_last_time r = None \<longrightarrow>
          format_field (row_last_time r) = ascii ''None'')"
proof -
  have named: "\<forall>r \<in> set ms. \<exists>n. row_name r = Some n \<and> n \<noteq> []"
    using assms(6) by (simp add: matching_row where_named_iff)
  then have fmt: "\<forall>r \<in> set ms. \<exists>n. row_name r = Some n \<and> n \<noteq> [] \<and>
          entry r = bullet @ ascii '' '' @ n @ ascii ''  ['' @ format_field (row_last_time r) @
                    ascii '']'' @ [10] @ ascii ''  '' @ preview (row_last_msg r)"
    by (fastforce simp: entry_def)
  have long: "\<forall>r \<in> set ms. \<forall>s. row_last_msg r = Some s \<longrightarrow>
          preview (row_last_msg r) = (if 60 < length s then take 60 s @ ascii ''...'' else s)"
    by (auto simp: preview_def)
  have none: "\<forall>r \<in> set ms. row_last_msg r = None \<longrightarrow> preview (row_last_msg r) = []"
    by (simp add: preview_def)
  have no_jid: "\<forall>r \<in> set ms. \<forall>jid.
          entry (jid, row_name r, row_last_time r, row_last_msg r) = entry r"
    by (simp add: entry_def)
  have source: "\<forall>r \<in> set ms. \<exists>c \<in> set (chats db).
          row_jid r = c_jid c \<and> row_name r = c_name c
          \<and> row_last_time r = c_last_message_time c
          \<and> ((\<exists>m \<in> set (messages db).
                 m_chat_jid m = c_jid c \<and> c_last_message_time c \<noteq> None
                 \<and> m_timestamp m = c_last_message_time c
                 \<and> row_last_msg r = m_content m)
              \<or> (\<not> (\<exists>m \<in> set (messages db).
                      m_chat_jid m = c_jid c \<and> c_last_message_time c \<noteq> None
                      \<and> m_timestamp m = c_last_message_time c)
                  \<and> row_last_msg r = None))"
  proof
    fix r
    assume "r \<in> set ms"
    then obtain c where c: "c \<in> set (chats db)"
      and r: "r \<in> set (left_join (messages db) c)"
      using assms(6) by (auto simp: matching_row)
    from left_join_columns [OF r] left_join_message [OF r]
    have "row_jid r = c_jid c \<and> row_name r = c_name c
          \<and> row_last_time r = c_last_message_time c
          \<and> ((\<exists>m \<in> set (messages db).
                 m_chat_jid m = c_jid c \<and> c_last_message_time c \<noteq> None
                 \<and> m_timestamp m = c_last_message_time c
                 \<and> row_last_msg r = m_content m)
              \<or> (\<not> (\<exists>m \<in> set (messages db).
                      m_chat_jid m = c_jid c \<and> c_last_message_time c \<noteq> None
                      \<and> m_timestamp m = c_last_message_time c)
                  \<and> row_last_msg r = None))"
      unfolding join_on_def by auto
    with c show "\<exists>c \<in> set (chats db).
          row_jid r = c_jid c \<and> row_name r = c_name c
          \<and> row_last_time r = c_last_message_time c
          \<and> ((\<exists>m \<in> set (messages db).
                 m_chat_jid m = c_jid c \<and> c_last_message_time c \<noteq> None
                 \<and> m_timestamp m = c_last_message_time c
                 \<and> row_last_msg r = m_content m)
              \<or> (\<not> (\<exists>m \<in> set (messages db).
                      m_chat_jid m = c_jid c \<and> c_last_message_time c \<noteq> None
                      \<and> m_timestamp m = c_last_message_time c)
                  \<and> row_last_msg r = None))"
      by blast
  qed
  have out: "fst (get_list_chats py list_name w) =
           Inr (join [10]
                  ((clipboard @ ascii '' '' @ key @ ascii '' ('' @ str_of_nat (length ms) @
                    ascii '' chats)'' @ [10])
                   # map entry ms))"
    using get_list_chats_resolved [OF assms(1-5)] assms(6,7) by (simp add: listing_def)
  have time: "\<forall>r \<in> set ms. \<forall>t. row_last_time r = Some t \<longrightarrow>
          format_field (row_last_time r) = t"
    by simp
  have no_time: "\<forall>r \<in> set ms. row_last_time r = None \<longrightarrow>
          format_field (row_last_time r) = ascii ''None''"
    by simp
  from out fmt long none no_jid source time no_time show ?thesis
    by (intro conjI)
qed

theorem get_list_chats_entries_witness:
  "fst (get_list_chats ascii_python (ascii ''trip'') trip_world) =
     Inr (join [10]
            [clipboard @ ascii '' Trip (2 chats)'' @ [10],
             entry vacation_row, entry girls_trip_row])
   \<and> entry vacation_row =
       bullet @ ascii '' VACATION  [2024-05-03 10:00:00]'' @ [10] @
       ascii ''  Booked the flights for all six of us, landing in Lisbon on F...''
   \<and> entry girls_trip_row =
       bullet @ ascii '' Girls Trip 2024  [2024-05-01 10:00:00]'' @ [10] @ ascii ''  hello''
   \<and> entry (ascii ''9@g.us'', row_name girls_trip_row, row_last_time girls_trip_row,
         row_last_msg girls_trip_row) = entry girls_trip_row
   \<and> (\<exists>c \<in> set (chats trip_db). \<exists>m \<in> set (messages trip_db).
         row_jid girls_trip_row = c_jid c \<and> m_chat_jid m = c_jid c
         \<and> m_timestamp m = c_last_message_time c
         \<and> row_last_msg girls_trip_row = m_content m)"
proof -
  note T = get_list_chats_entries [OF trip_resolves]
  from T [THEN conjunct1]
  have out: "fst (get_list_chats ascii_python (ascii ''trip'') trip_world) =
     Inr (join [10]
            [clipboard @ ascii '' Trip (2 chats)'' @ [10],
             entry vacation_row, entry girls_trip_row])"
    by (simp add: ascii_def str_of_nat.simps)
  have v: "vacation_row \<in> set [vacation_row, girls_trip_row]"
    and g: "girls_trip_row \<in> set [vacation_row, girls_trip_row]"
    by simp_all
  have vm: "row_last_msg vacation_row =
      Some (ascii ''Booked the flights for all six of us, landing in Lisbon on Friday at 9:40'')"
    and gm: "row_last_msg girls_trip_row = Some (ascii ''hello'')"
    by (simp_all add: vacation_row_def girls_trip_row_def)
  from T [THEN conjunct2, THEN conjunct2, THEN conjunct1] v vm
  have vp: "preview (row_last_msg vacation_row) =
      ascii ''Booked the flights for all six of us, landing in Lisbon on F...''"
    by (simp add: ascii_def)
  from T [THEN conjunct2, THEN conjunct2, THEN conjunct1] g gm
  have gp: "preview (row_last_msg girls_trip_row) = ascii ''hello''"
    by (simp add: ascii_def)
  from T [THEN conjunct2, THEN conjunct1] v vp
  have ve: "entry vacation_row =
       bullet @ ascii '' VACATION  [2024-05-03 10:00:00]'' @ [10] @
       ascii ''  Booked the flights for all six of us, landing in Lisbon on F...''"
    by (simp add: vacation_row_def ascii_def)
  from T [THEN conjunct2, THEN conjunct1] g gp
  have ge: "entry girls_trip_row =
       bullet @ ascii '' Girls Trip 2024  [2024-05-01 10:00:00]'' @ [10] @ ascii ''  hello''"
    by (simp add: girls_trip_row_def ascii_def)
  from T [THEN conjunct2, THEN conjunct2, THEN conjunct2, THEN conjunct2, THEN conjunct1] g
  have gj: "entry (ascii ''9@g.us'', row_name girls_trip_row, row_last_time girls_trip_row,
         row_last_msg girls_trip_row) = entry girls_trip_row"
    by blast
  from T [THEN conjunct2, THEN conjunct2, THEN conjunct2, THEN conjunct2, THEN conjunct2,
      THEN conjunct1] g gm
  have gs: "\<exists>c \<in> set (chats trip_db). \<exists>m \<in> set (messages trip_db).
         row_jid girls_trip_row = c_jid c \<and> m_chat_jid m = c_jid c
         \<and> m_timestamp m = c_last_message_time c
         \<and> row_last_msg girls_trip_row = m_content m"
    by fastforce
  from out ve ge gj gs show ?thesis by blast
qed

text \<open>
  C6, as stated, at the chat \<open>Girls Trip 2024\<close> with the identifier \<open>1@g.us\<close>: its
  entry has a line break in it, and the identifier occurs nowhere in the result.
\<close>

theorem get_list_chats_entry_counterexample:
  "fst (get_list_chats ascii_python (ascii ''trip'') trip_world) =
     Inr (listing (ascii ''Trip'') [vacation_row, girls_trip_row])
   \<and> row_jid girls_trip_row = ascii ''1@g.us''
   \<and> entry girls_trip_row =
       bullet @ ascii '' Girls Trip 2024  [2024-05-01 10:00:00]'' @ [10] @ ascii ''  hello''
   \<and> \<not> str_in (ascii ''1@g.us'') (listing (ascii ''Trip'') [vacation_row, girls_trip_row])
   \<and> 10 \<in> set (entry girls_trip_row)"
proof -
  have "fst (get_list_chats ascii_python (ascii ''trip'') trip_world) =
     Inr (listing (ascii ''Trip'') [vacation_row, girls_trip_row])"
    using get_list_chats_resolved [OF trip_resolves(1-5)] trip_resolves(6) [symmetric] by simp
  moreover have "row_jid girls_trip_row = ascii ''1@g.us''"
    by (simp add: girls_trip_row_def)
  moreover have "entry girls_trip_row =
       bullet @ ascii '' Girls Trip 2024  [2024-05-01 10:00:00]'' @ [10] @ ascii ''  hello''"
    by (simp add: entry_def girls_trip_row_def preview_def ascii_def)
  moreover have "\<not> str_in (ascii ''1@g.us'')
      (listing (ascii ''Trip'') [vacation_row, girls_trip_row])"
    by (simp add: listing_def entry_def vacation_row_def girls_trip_row_def preview_def
        clipboard_def bullet_def ascii_def str_of_nat.simps)
  moreover have "10 \<in> set (entry girls_trip_row)"
    by (simp add: entry_def)
  ultimately show ?thesis by blast
qed

section \<open>Store failures\<close>

text \<open>
  C8. When the list name resolves and the read of the store raises \<open>sqlite3.Error\<close>
  with the text \<open>e\<close>, \<open>get_list_chats\<close> returns a value, the text \<open>Database error: \<close>
  followed by \<open>e\<close> unchanged; no exception leaves the call, and the call has made
  exactly one store query after loading the lists: there is no second attempt.
\<close>

theorem get_list_chats_store_failure:
  assumes "chat_lists_json w = Json lists'"
    and "match_key py lists' list_name = Some key" and "key \<noteq> []"
    and "messages_db w = Unavailable e"
  shows "get_list_chats py list_name w =
     (Inr (ascii ''Database error: '' @ e),
      w\<lparr>trace := trace w @ [Load_chat_lists, Store_query]\<rparr>)"
proof -
  from assms(2) have "lists' \<noteq> []" by (auto simp: match_key_def)
  moreover from assms(2) obtain kws where "map_of lists' key = Some kws"
    using match_key_lookup by blast
  ultimately show ?thesis using assms
    by (simp add: get_list_chats_def load_chat_lists_def fetch_all_chats_def Let_def)
qed

theorem get_list_chats_store_failure_witness:
  "get_list_chats ascii_python (ascii ''trip'')
     (trip_world\<lparr>messages_db := Unavailable (ascii ''no such table: chats'')\<rparr>) =
     (Inr (ascii ''Database error: no such table: chats''),
      trip_world\<lparr>messages_db := Unavailable (ascii ''no such table: chats''),
                 trace := [Load_chat_lists, Store_query]\<rparr>)"
proof -
  have h1: "chat_lists_json (trip_world\<lparr>messages_db := Unavailable (ascii ''no such table: chats'')\<rparr>)
      = Json trip_lists"
    by (simp add: trip_world_def)
  have h4: "messages_db (trip_world\<lparr>messages_db := Unavailable (ascii ''no such table: chats'')\<rparr>)
      = Unavailable (ascii ''no such table: chats'')"
    by simp
  from get_list_chats_store_failure [OF h1 trip_resolves(2,3) h4]
  show ?thesis by (simp add: ascii_def trip_world_def)
qed

section \<open>Looking up the list\<close>

text \<open>
  C2, as the code has it. Let \<open>lists'\<close> be the dictionary that the call loads (its keys
  are distinct), and let no label of it have the lowercase form of the list name, with
  lowercase as \<open>str.lower()\<close> of the interpreter gives it. When the dictionary is not
  empty, the result is the text \<open>List '...' not found. Available lists: \<close> followed by
  the labels, in the order of the dictionary and separated by commas, so that every
  label occurs in it. When no list is defined (the file is missing or holds an empty
  object) the result is the fixed text \<open>No lists defined. ...\<close> instead. In both cases
  the call has loaded the lists and done nothing else: there is no store query.
\<close>

theorem get_list_chats_unknown_list:
  assumes "fst (load_chat_lists w) = Inr lists'"
    and "distinct (map fst lists')"
    and "\<forall>k \<in> set (map fst lists'). str_lower py k \<noteq> str_lower py list_name"
  shows "get_list_chats py list_name w =
     (Inr (if lists' = [] then no_lists_defined
           else ascii ''List '' @ [39] @ list_name @ [39] @
                ascii '' not found. Available lists: '' @ join (ascii '', '') (map fst lists')),
      w\<lparr>trace := trace w @ [Load_chat_lists]\<rparr>)
    \<and> (\<forall>k \<in> set (map fst lists'). \<exists>ps ss. join (ascii '', '') (map fst lists') = ps @ k @ ss)"
proof -
  from assms(3) have none: "match_key py lists' list_name = None"
    by (simp add: match_key_None)
  from assms(1) have "load_chat_lists w = (Inr lists', w\<lparr>trace := trace w @ [Load_chat_lists]\<rparr>)"
    by (auto simp: load_chat_lists_def Let_def split: config_file.splits)
  with none have "get_list_chats py list_name w =
     (Inr (if lists' = [] then no_lists_defined
           else ascii ''List '' @ [39] @ list_name @ [39] @
                ascii '' not found. Available lists: '' @ join (ascii '', '') (map fst lists')),
      w\<lparr>trace := trace w @ [Load_chat_lists]\<rparr>)"
    by (simp add: get_list_chats_def not_found_def)
  then show ?thesis using join_contains_all by blast
qed

theorem get_list_chats_unknown_list_witness:
  "get_list_chats ascii_python (ascii ''Dance'') (trip_world\<lparr>chat_lists_json := Json trip_work_lists\<rparr>) =
     (Inr (ascii ''List 'Dance' not found. Available lists: Trip, Work''),
      trip_world\<lparr>chat_lists_json := Json trip_work_lists, trace := [Load_chat_lists]\<rparr>)
   \<and> (\<exists>ps ss. join (ascii '', '') (map fst trip_work_lists) = ps @ ascii ''Work'' @ ss)"
proof -
  have h1: "fst (load_chat_lists (trip_world\<lparr>chat_lists_json := Json trip_work_lists\<rparr>)) =
      Inr trip_work_lists"
    by (simp add: load_chat_lists_def Let_def)
  have h2: "\<forall>k \<in> set (map fst trip_work_lists). str_lower ascii_python k \<noteq> str_lower ascii_python (ascii ''Dance'')"
    by (simp add: trip_work_lists_def ascii_python_def ascii_lower_def ascii_lower_cp_def ascii_def)
  have h3: "distinct (map fst trip_work_lists)"
    by (simp add: trip_work_lists_def ascii_def)
  note T = get_list_chats_unknown_list [OF h1 h3 h2]
  from T [THEN conjunct1]
  have out: "get_list_chats ascii_python (ascii ''Dance'') (trip_world\<lparr>chat_lists_json := Json trip_work_lists\<rparr>) =
     (Inr (ascii ''List 'Dance' not found. Available lists: Trip, Work''),
      trip_world\<lparr>chat_lists_json := Json trip_work_lists, trace := [Load_chat_lists]\<rparr>)"
    by (simp add: trip_work_lists_def ascii_def trip_world_def)
  have "ascii ''Work'' \<in> set (map fst trip_work_lists)"
    by (simp add: trip_work_lists_def)
  with T [THEN conjunct2]
  have "\<exists>ps ss. join (ascii '', '') (map fst trip_work_lists) = ps @ ascii ''Work'' @ ss"
    by blast
  with out show ?thesis by blast
qed

text \<open>
  C2, as stated, where the file is missing: the name \<open>Dance\<close> matches no label, and the
  result is not the not-found text and does not name the list asked for.
\<close>

theorem get_list_chats_no_lists_counterexample:
  "fst (load_chat_lists idle_world) = Inr []
   \<and> get_list_chats ascii_python (ascii ''Dance'') idle_world =
       (Inr no_lists_defined, idle_world\<lparr>trace := [Load_chat_lists]\<rparr>)
   \<and> no_lists_defined \<noteq> not_found (ascii ''Dance'') []
   \<and> \<not> str_in (ascii ''Dance'') no_lists_defined"
  by (simp add: get_list_chats_def load_chat_lists_def Let_def idle_world_def
      no_lists_defined_def not_found_def ascii_def)

text \<open>
  C4 at the label that is the empty string, asked for by the empty list name. The label
  equals the name, the lookup finds it and the dictionary has its keywords, but the
  test \<open>if not matched_key\<close> takes the empty label for no label: the call answers
  that the list is not found and never reads the store.
\<close>

theorem get_list_chats_empty_label:
  "match_key py empty_label_lists [] = Some []
   \<and> map_of empty_label_lists [] = Some [ascii ''trip'']
   \<and> get_list_chats py [] (trip_world\<lparr>chat_lists_json := Json empty_label_lists\<rparr>) =
       (Inr (ascii ''List '' @ [39, 39] @ ascii '' not found. Available lists: ''),
        trip_world\<lparr>chat_lists_json := Json empty_label_lists, trace := [Load_chat_lists]\<rparr>)"
  by (simp add: get_list_chats_def load_chat_lists_def Let_def empty_label_lists_def
      match_key_def not_found_def trip_world_def)

section \<open>Loading the lists\<close>

text \<open>
  C7, as the code has it. Both tools load \<open>chat_lists.json\<close> on every call, exactly
  once per call, and keep nothing between calls: after the file has been edited, a call
  answers as if it were the first call on the edited file, whichever tool ran before,
  and it loads the mapping that the file holds then.
\<close>

theorem chat_lists_read_on_every_call:
  "fst (get_list_chats py n2 (edit_chat_lists f (snd (get_list_chats py n1 w)))) =
     fst (get_list_chats py n2 (edit_chat_lists f w))
   \<and> fst (show_all_lists (edit_chat_lists f (snd (get_list_chats py n1 w)))) =
     fst (show_all_lists (edit_chat_lists f w))
   \<and> fst (get_list_chats py n2 (edit_chat_lists f (snd (show_all_lists w)))) =
     fst (get_list_chats py n2 (edit_chat_lists f w))
   \<and> fst (show_all_lists (edit_chat_lists f (snd (show_all_lists w)))) =
     fst (show_all_lists (edit_chat_lists f w))
   \<and> fst (load_chat_lists (edit_chat_lists (Json l) w)) = Inr l
   \<and> count_list (trace (snd (get_list_chats py n1 w))) Load_chat_lists =
     Suc (count_list (trace w) Load_chat_lists)
   \<and> count_list (trace (snd (show_all_lists w))) Load_chat_lists =
     Suc (count_list (trace w) Load_chat_lists)"
proof (intro conjI)
  show "fst (get_list_chats py n2 (edit_chat_lists f (snd (get_list_chats py n1 w)))) =
     fst (get_list_chats py n2 (edit_chat_lists f w))"
    by (rule get_list_chats_reads) (simp_all add: edit_chat_lists_def get_list_chats_world)
  show "fst (show_all_lists (edit_chat_lists f (snd (get_list_chats py n1 w)))) =
     fst (show_all_lists (edit_chat_lists f w))"
    by (rule show_all_lists_reads) (simp_all add: edit_chat_lists_def get_list_chats_world)
  show "fst (get_list_chats py n2 (edit_chat_lists f (snd (show_all_lists w)))) =
     fst (get_list_chats py n2 (edit_chat_lists f w))"
    by (rule get_list_chats_reads) (simp_all add: edit_chat_lists_def show_all_lists_world)
  show "fst (show_all_lists (edit_chat_lists f (snd (show_all_lists w)))) =
     fst (show_all_lists (edit_chat_lists f w))"
    by (rule show_all_lists_reads) (simp_all add: edit_chat_lists_def show_all_lists_world)
  show "fst (load_chat_lists (edit_chat_lists (Json l) w)) = Inr l"
    by (simp add: load_chat_lists_def edit_chat_lists_def Let_def)
  show "count_list (trace (snd (get_list_chats py n1 w))) Load_chat_lists =
     Suc (count_list (trace w) Load_chat_lists)"
    by (rule get_list_chats_loads_once)
  show "count_list (trace (snd (show_all_lists w))) Load_chat_lists =
     Suc (count_list (trace w) Load_chat_lists)"
    by (rule show_all_lists_loads_once)
qed

theorem chat_lists_read_on_every_call_witness:
  "fst (get_list_chats ascii_python (ascii ''trip'')
         (edit_chat_lists (Json work_lists) (snd (get_list_chats ascii_python (ascii ''trip'') trip_world)))) =
     Inr (not_found (ascii ''trip'') work_lists)"
  using chat_lists_read_on_every_call
    [of ascii_python "ascii ''trip''" "Json work_lists" "ascii ''trip''" trip_world work_lists]
    work_unknown [of trip_world]
  by simp

text \<open>
  C7, as stated, at two calls of \<open>get_list_chats\<close> for \<open>trip\<close> with the file edited in
  between from the list \<open>Trip\<close> to the list \<open>Work\<close>: the first call lists the chats of
  \<open>Trip\<close>, the second does not find the list, where a call on the mapping loaded at
  first would list the same chats again.
\<close>

theorem chat_lists_loaded_once_counterexample:
  "fst (get_list_chats ascii_python (ascii ''trip'') trip_world) =
     Inr (listing (ascii ''Trip'') [vacation_row, girls_trip_row])
   \<and> fst (get_list_chats ascii_python (ascii ''trip'')
         (edit_chat_lists (Json work_lists) (snd (get_list_chats ascii_python (ascii ''trip'') trip_world)))) =
     Inr (not_found (ascii ''trip'') work_lists)
   \<and> fst (get_list_chats ascii_python (ascii ''trip'')
         (edit_chat_lists (Json work_lists) (snd (get_list_chats ascii_python (ascii ''trip'') trip_world))))
     \<noteq> fst (get_list_chats ascii_python (ascii ''trip'') (snd (get_list_chats ascii_python (ascii ''trip'') trip_world)))"
proof -
  have first: "fst (get_list_chats ascii_python (ascii ''trip'') trip_world) =
     Inr (listing (ascii ''Trip'') [vacation_row, girls_trip_row])"
    using get_list_chats_resolved [OF trip_resolves(1-5)] trip_resolves(6) [symmetric] by simp
  have "fst (get_list_chats ascii_python (ascii ''trip'') (snd (get_list_chats ascii_python (ascii ''trip'') trip_world))) =
      fst (get_list_chats ascii_python (ascii ''trip'') trip_world)"
    by (rule get_list_chats_reads) (simp_all add: get_list_chats_world)
  with first have unedited:
    "fst (get_list_chats ascii_python (ascii ''trip'') (snd (get_list_chats ascii_python (ascii ''trip'') trip_world))) =
       Inr (listing (ascii ''Trip'') [vacation_row, girls_trip_row])"
    by simp
  have edited: "fst (get_list_chats ascii_python (ascii ''trip'')
         (edit_chat_lists (Json work_lists) (snd (get_list_chats ascii_python (ascii ''trip'') trip_world)))) =
     Inr (not_found (ascii ''trip'') work_lists)"
    by (rule work_unknown)
  have "not_found (ascii ''trip'') work_lists \<noteq>
      listing (ascii ''Trip'') [vacation_row, girls_trip_row]"
    by (simp add: not_found_def listing_def clipboard_def ascii_def)
  with first unedited edited show ?thesis by simp
qed

end
